theory Spec2Isabelle
  imports
    Main
    "HOL-Library.Sublist"
    "HOL-Library.Char_ord"
    "HOL-Library.List_Lexorder"
begin

section \<open>Python strings\<close>

text \<open>
  A Python \<open>str\<close> is modelled as a \<^typ>\<open>string\<close>, one \<^typ>\<open>char\<close> per code point, which
  covers the strings whose code points are below 256. On these, \<open>str.lower\<close> maps
  \<open>A\<close>..\<open>Z\<close> and the Latin-1 capitals (\<open>0xC0\<close>..\<open>0xDE\<close> without \<open>0xD7\<close>) to the
  code point 32 above and leaves every other code point alone, and \<open>str.isspace\<close> (also the
  class \<open>\s\<close> of \<open>re\<close>) holds of \<open>0x09\<close>..\<open>0x0D\<close>, \<open>0x1C\<close>..\<open>0x20\<close>, \<open>0x85\<close> and \<open>0xA0\<close>.
\<close>

definition lower_char :: "char \<Rightarrow> char" where
  "lower_char c =
     (let n = (of_char c :: nat)
      in if (65 \<le> n \<and> n \<le> 90) \<or> (192 \<le> n \<and> n \<le> 222 \<and> n \<noteq> 215)
         then char_of (n + 32) else c)"

definition lower :: "string \<Rightarrow> string" where
  "lower s = map lower_char s"

definition isspace :: "char \<Rightarrow> bool" where
  "isspace c =
     (let n = (of_char c :: nat)
      in (9 \<le> n \<and> n \<le> 13) \<or> (28 \<le> n \<and> n \<le> 32) \<or> n = 133 \<or> n = 160)"

text \<open>\<open>s.strip()\<close>: leading and trailing whitespace removed.\<close>

definition strip :: "string \<Rightarrow> string" where
  "strip s = rev (dropWhile isspace (rev (dropWhile isspace s)))"

text \<open>\<open>a in b\<close> on strings is \<^term>\<open>sublist a b\<close>; \<open>b.startswith(a)\<close> is \<^term>\<open>prefix a b\<close>.\<close>

text \<open>\<open>s.split(",")\<close>: one piece more than there are commas, empty pieces kept.\<close>

fun split_comma :: "string \<Rightarrow> string list" where
  "split_comma [] = [[]]"
| "split_comma (c # cs) =
     (if c = CHR '','' then [] # split_comma cs
      else (case split_comma cs of
              [] \<Rightarrow> [[c]]
            | p # ps \<Rightarrow> (c # p) # ps))"

text \<open>\<open>str(n)\<close> of a natural number and of an integer, in decimal.\<close>

definition digit_char :: "nat \<Rightarrow> char" where
  "digit_char d = char_of (48 + d)"

function str_nat :: "nat \<Rightarrow> string" where
  "str_nat n = (if n < 10 then [digit_char n] else str_nat (n div 10) @ [digit_char (n mod 10)])"
  by pat_completeness auto
termination
  by (relation "measure id") auto

declare str_nat.simps [simp del]

definition str_int :: "int \<Rightarrow> string" where
  "str_int i = (if i < 0 then CHR ''-'' # str_nat (nat (- i)) else str_nat (nat i))"

text \<open>\<open>xs[:n]\<close> for a Python integer \<open>n\<close>: a negative \<open>n\<close> counts from the end.\<close>

definition slice_to :: "'a list \<Rightarrow> int \<Rightarrow> 'a list" where
  "slice_to xs n = (if n < 0 then take (nat (int (length xs) + n)) xs else take (nat n) xs)"

section \<open>Dictionaries in insertion order\<close>

text \<open>
  A Python \<open>dict\<close> iterates in insertion order, and assigning to a key that is present
  replaces the value where the key already stands. The index is therefore an association
  list with \<open>d[k] = v\<close> as \<open>dict_set\<close>, \<open>k in d\<close> as \<open>dict_in\<close>, \<open>d[k]\<close> as
  \<^term>\<open>map_of d k\<close>, \<open>d.items()\<close> as the list itself and \<open>d.values()\<close> as
  \<^term>\<open>map snd d\<close>.
\<close>

fun dict_set :: "('k \<times> 'v) list \<Rightarrow> 'k \<Rightarrow> 'v \<Rightarrow> ('k \<times> 'v) list" where
  "dict_set [] k v = [(k, v)]"
| "dict_set ((k', v') # d) k v =
     (if k' = k then (k', v) # d else (k', v') # dict_set d k v)"

definition dict_in :: "'k \<Rightarrow> ('k \<times> 'v) list \<Rightarrow> bool" where
  "dict_in k d = (map_of d k \<noteq> None)"

section \<open>The record loader\<close>

record artwork =
  name :: string
  title :: string
  status :: string
  location :: string
  neighborhood :: string
  description :: string
  filename :: string

type_synonym status_db = "(string \<times> artwork) list"

text \<open>
  \<open>os.path.splitext(filename)[0]\<close> of a base name: the text before the last dot, unless
  there is no dot or only dots stand before it.
\<close>

definition splitext_root :: "string \<Rightarrow> string" where
  "splitext_root p =
     (if CHR ''.'' \<in> set p
      then (let stem = rev (tl (dropWhile (\<lambda>c. c \<noteq> CHR ''.'') (rev p)))
            in if list_ex (\<lambda>c. c \<noteq> CHR ''.'') stem then stem else p)
      else p)"

text \<open>
  The searches \<open>re.search(hdr + r'\s*\n(.*?)\n', content, re.DOTALL)\<close>. After the header
  the greedy \<open>\s*\<close> takes the whole run of whitespace and gives characters back one at a
  time until a line feed follows it; the lazy group then runs to the next line feed, and
  the attempt fails where there is none. \<open>line_tail rest k\<close> tries \<open>\s*\<close> at the lengths
  \<open>k\<close>, \<open>k - 1\<close>, ..., \<open>0\<close> and returns the group of the first that succeeds.
\<close>

abbreviation LF :: char where
  "LF \<equiv> CHR 0x0A"

definition line_at :: "string \<Rightarrow> nat \<Rightarrow> string option" where
  "line_at rest k =
     (if k < length rest \<and> rest ! k = LF \<and> LF \<in> set (drop (Suc k) rest)
      then Some (takeWhile (\<lambda>c. c \<noteq> LF) (drop (Suc k) rest))
      else None)"

fun line_tail :: "string \<Rightarrow> nat \<Rightarrow> string option" where
  "line_tail rest 0 = line_at rest 0"
| "line_tail rest (Suc k) =
     (case line_at rest (Suc k) of
        Some g \<Rightarrow> Some g
      | None \<Rightarrow> line_tail rest k)"

definition match_line :: "string \<Rightarrow> string option" where
  "match_line rest = line_tail rest (length (takeWhile isspace rest))"

text \<open>
  The description's search \<open>r'## DescriptionOfwork\s*\n(.*?)(?=\n##|\Z)'\<close>: the lazy group
  stops before the first line feed followed by \<open>##\<close>, or at the end of the text.
\<close>

fun until_header :: "string \<Rightarrow> string" where
  "until_header [] = []"
| "until_header (c # cs) =
     (if prefix [LF, CHR ''#'', CHR ''#''] (c # cs) then [] else c # until_header cs)"

definition block_at :: "string \<Rightarrow> nat \<Rightarrow> string option" where
  "block_at rest k =
     (if k < length rest \<and> rest ! k = LF
      then Some (until_header (drop (Suc k) rest))
      else None)"

fun block_tail :: "string \<Rightarrow> nat \<Rightarrow> string option" where
  "block_tail rest 0 = block_at rest 0"
| "block_tail rest (Suc k) =
     (case block_at rest (Suc k) of
        Some g \<Rightarrow> Some g
      | None \<Rightarrow> block_tail rest k)"

definition match_block :: "string \<Rightarrow> string option" where
  "match_block rest = block_tail rest (length (takeWhile isspace rest))"

text \<open>
  \<open>re.search\<close> takes the leftmost position where the header stands and the rest of the
  pattern matches.
\<close>

fun re_search :: "string \<Rightarrow> (string \<Rightarrow> string option) \<Rightarrow> string \<Rightarrow> string option" where
  "re_search hdr tail [] =
     (if prefix hdr [] then tail (drop (length hdr) []) else None)"
| "re_search hdr tail (c # cs) =
     (case (if prefix hdr (c # cs) then tail (drop (length hdr) (c # cs)) else None) of
        Some g \<Rightarrow> Some g
      | None \<Rightarrow> re_search hdr tail cs)"

definition field_or :: "string \<Rightarrow> string \<Rightarrow> string \<Rightarrow> string" where
  "field_or hdr dflt content =
     (case re_search hdr match_line content of
        Some g \<Rightarrow> strip g
      | None \<Rightarrow> dflt)"

definition raw_description :: "string \<Rightarrow> string" where
  "raw_description content =
     (case re_search ''## DescriptionOfwork'' match_block content of
        Some g \<Rightarrow> strip g
      | None \<Rightarrow> [])"

text \<open>\<open>description[:300] + "..." if len(description) > 300 else description\<close>\<close>

definition truncate_description :: "string \<Rightarrow> string" where
  "truncate_description d = (if length d > 300 then take 300 d @ ''...'' else d)"

text \<open>The record built from one file that could be read.\<close>

definition parse_artwork :: "string \<Rightarrow> string \<Rightarrow> artwork" where
  "parse_artwork fname content =
     (let artwork_name = splitext_root fname
      in \<lparr> name = artwork_name,
           title = field_or ''## Title of Work'' artwork_name content,
           status = field_or ''## Status'' ''Unknown'' content,
           location = field_or ''## LocationOnsite'' [] content,
           neighborhood = field_or ''## Neighbourhood'' [] content,
           description = truncate_description (raw_description content),
           filename = fname \<rparr>)"

text \<open>
  One round of the loop over \<open>md_files\<close>. A file is its base name and its content, \<open>None\<close>
  when opening or decoding it raises: the \<open>except\<close> clause then leaves the index as it
  was. Nothing after the read can raise.
\<close>

fun load_file :: "status_db \<Rightarrow> string \<times> string option \<Rightarrow> status_db" where
  "load_file db (fname, None) = db"
| "load_file db (fname, Some content) =
     (let art = parse_artwork fname content;
          db1 = dict_set db (lower (name art)) art
      in if lower (title art) \<noteq> lower (name art)
         then dict_set db1 (lower (title art)) art
         else db1)"

definition load_status_database :: "(string \<times> string option) list \<Rightarrow> status_db" where
  "load_status_database md_files = foldl load_file [] md_files"

section \<open>The query engine\<close>

text \<open>\<open>sep.join(xs)\<close> and \<open>enumerate(xs, 1)\<close>.\<close>

fun join :: "string \<Rightarrow> string list \<Rightarrow> string" where
  "join sep [] = []"
| "join sep [x] = x"
| "join sep (x # y # ys) = x @ sep @ join sep (y # ys)"

definition enumerate1 :: "'a list \<Rightarrow> (nat \<times> 'a) list" where
  "enumerate1 xs = zip [1 ..< Suc (length xs)] xs"

subsection \<open>\<open>get_artwork_status\<close>\<close>

definition details_of :: "artwork \<Rightarrow> string list" where
  "details_of art =
     (if location art \<noteq> [] then [''Location: '' @ location art] else []) @
     (if neighborhood art \<noteq> [] then [''Neighborhood: '' @ neighborhood art] else []) @
     (if description art \<noteq> [] then [''Description excerpt: '' @ description art] else [])"

definition exact_response :: "artwork \<Rightarrow> bool \<Rightarrow> string" where
  "exact_response art include_details =
     (if include_details
      then (let details = details_of art;
                details_text = (if details \<noteq> [] then join [LF] details
                                else ''No additional details available'')
            in ''Artwork: '' @ title art @ [LF] @ ''Status: '' @ status art @ [LF, LF] @ details_text)
      else ''Artwork: '' @ title art @ [LF] @ ''Status: '' @ status art)"

text \<open>The test of the fuzzy loops, on one item of the index.\<close>

definition fuzzy_hit :: "string \<Rightarrow> string \<times> artwork \<Rightarrow> bool" where
  "fuzzy_hit q item = (sublist q (fst item) \<or> sublist q (lower (title (snd item))))"

text \<open>The loop \<open>for key, data in self.status_db.items(): if ...: matches.append(data)\<close>.\<close>

fun fuzzy_loop :: "string \<Rightarrow> (string \<times> artwork) list \<Rightarrow> artwork list \<Rightarrow> artwork list" where
  "fuzzy_loop artwork_name [] matches = matches"
| "fuzzy_loop artwork_name (item # items) matches =
     (if fuzzy_hit (lower artwork_name) item
      then fuzzy_loop artwork_name items (matches @ [snd item])
      else fuzzy_loop artwork_name items matches)"

definition fuzzy_matches :: "status_db \<Rightarrow> string \<Rightarrow> artwork list" where
  "fuzzy_matches db artwork_name = fuzzy_loop artwork_name db []"

definition match_line_text :: "nat \<times> artwork \<Rightarrow> string" where
  "match_line_text im =
     str_nat (fst im) @ ''. '' @ title (snd im) @ '' - Status: '' @ status (snd im) @ [LF]"

definition fuzzy_response :: "string \<Rightarrow> artwork list \<Rightarrow> string" where
  "fuzzy_response artwork_name matches =
     ''Could not find exact match for '' @ [CHR 0x27] @ artwork_name @ [CHR 0x27] @
     '', but found '' @ str_nat (length matches) @ '' similar artwork(s):'' @ [LF, LF] @
     concat (map match_line_text (enumerate1 (take 5 matches))) @
     (if length matches > 5
      then [LF] @ ''And '' @ str_nat (length matches - 5) @ '' more matches.''
      else [])"

definition get_artwork_status :: "status_db \<Rightarrow> string \<Rightarrow> bool \<Rightarrow> string" where
  "get_artwork_status db artwork_name include_details =
     (if artwork_name = [] then ''Error: No artwork name provided''
      else (case map_of db (lower artwork_name) of
              Some art \<Rightarrow> exact_response art include_details
            | None \<Rightarrow>
                (let matches = fuzzy_matches db artwork_name
                 in if matches \<noteq> [] then fuzzy_response artwork_name matches
                    else ''No artwork found matching '' @ [CHR 0x27] @ artwork_name @ [CHR 0x27])))"

subsection \<open>\<open>list_active_artworks\<close>\<close>

text \<open>
  The filter of \<open>list_active_artworks\<close> on one record, and its collecting loop over
  \<open>self.status_db.values()\<close> with the two variables \<open>active_artworks\<close> and \<open>seen_titles\<close>.
\<close>

definition in_neighborhood :: "string \<Rightarrow> artwork \<Rightarrow> bool" where
  "in_neighborhood nb data =
     (neighborhood data \<noteq> [] \<and> sublist (lower nb) (lower (neighborhood data)))"

definition is_active :: "string \<Rightarrow> artwork \<Rightarrow> bool" where
  "is_active nb data =
     (status data = ''In place'' \<and> (nb = [] \<or> in_neighborhood nb data))"

fun active_loop ::
  "string \<Rightarrow> artwork list \<Rightarrow> artwork list \<times> string set \<Rightarrow> artwork list \<times> string set" where
  "active_loop nb [] (active_artworks, seen_titles) = (active_artworks, seen_titles)"
| "active_loop nb (data # rest) (active_artworks, seen_titles) =
     (if title data \<in> seen_titles then active_loop nb rest (active_artworks, seen_titles)
      else if status data = ''In place''
           then (if nb = [] \<or> in_neighborhood nb data
                 then active_loop nb rest
                        (active_artworks @ [data], insert (title data) seen_titles)
                 else active_loop nb rest (active_artworks, seen_titles))
           else active_loop nb rest (active_artworks, seen_titles))"

definition active_artworks :: "status_db \<Rightarrow> string \<Rightarrow> artwork list" where
  "active_artworks db nb = sort_key title (fst (active_loop nb (map snd db) ([], {})))"

definition active_line :: "nat \<times> artwork \<Rightarrow> string" where
  "active_line ia =
     str_nat (fst ia) @ ''. '' @ title (snd ia) @
     (if location (snd ia) \<noteq> [] then '' - Located at: '' @ location (snd ia) else []) @
     (if neighborhood (snd ia) \<noteq> []
      then '' ('' @ neighborhood (snd ia) @ '')'' else []) @
     [LF]"

definition active_more :: "artwork list \<Rightarrow> int \<Rightarrow> string" where
  "active_more active limit =
     (if int (length active) > limit
      then [LF] @ ''There are '' @ str_int (int (length active) - limit) @
           '' more active artworks.''
      else [])"

definition list_active_artworks :: "status_db \<Rightarrow> string \<Rightarrow> int \<Rightarrow> string" where
  "list_active_artworks db nb limit =
     (let active = active_artworks db nb
      in if active = []
         then (if nb \<noteq> [] then ''No active artworks found in the '' @ nb @ '' neighborhood''
               else ''No active artworks found'')
         else (let limited_results = slice_to active limit
               in ''Found '' @ str_nat (length active) @ '' active artworks'' @
                  (if nb \<noteq> [] then '' in or near '' @ nb else []) @
                  '' (showing '' @ str_nat (length limited_results) @ ''):'' @ [LF, LF] @
                  concat (map active_line (enumerate1 limited_results)) @
                  active_more active limit))"

subsection \<open>\<open>compare_artwork_status\<close>\<close>

text \<open>\<open>[name.strip() for name in artwork_names.split(",") if name.strip()]\<close>\<close>

definition names_list :: "string \<Rightarrow> string list" where
  "names_list artwork_names =
     map strip (filter (\<lambda>name. strip name \<noteq> []) (split_comma artwork_names))"

text \<open>
  An entry of \<open>results\<close>: \<open>{"name", "title", "status", "found": True}\<close> or
  \<open>{"name", "found": False}\<close>.
\<close>

datatype compare_result =
  Found (r_name: string) (r_title: string) (r_status: string)
| Missing (r_name: string)

text \<open>
  The body of the loop over \<open>names_list\<close>: the exact match, else the first item of the
  index that the fuzzy test takes (the inner loop leaves at its first hit), else the entry
  that is not found.
\<close>

definition lookup_result :: "status_db \<Rightarrow> string \<Rightarrow> compare_result" where
  "lookup_result db name' =
     (let name_key = lower name'
      in case map_of db name_key of
           Some art \<Rightarrow> Found name' (title art) (status art)
         | None \<Rightarrow>
             (case find (fuzzy_hit name_key) db of
                Some item \<Rightarrow> Found name' (title (snd item)) (status (snd item))
              | None \<Rightarrow> Missing name'))"

fun results_loop :: "status_db \<Rightarrow> string list \<Rightarrow> compare_result list \<Rightarrow> compare_result list" where
  "results_loop db [] results = results"
| "results_loop db (name' # names) results =
     results_loop db names (results @ [lookup_result db name'])"

text \<open>The loop over \<open>results\<close> that fills \<open>in_place\<close>, \<open>not_in_place\<close> and \<open>not_found\<close>.\<close>

fun buckets_loop ::
  "compare_result list \<Rightarrow> string list \<times> string list \<times> string list \<Rightarrow>
   string list \<times> string list \<times> string list" where
  "buckets_loop [] (in_place, not_in_place, not_found) = (in_place, not_in_place, not_found)"
| "buckets_loop (Missing n # results) (in_place, not_in_place, not_found) =
     buckets_loop results (in_place, not_in_place, not_found @ [n])"
| "buckets_loop (Found n t s # results) (in_place, not_in_place, not_found) =
     (if s = ''In place''
      then buckets_loop results (in_place @ [t], not_in_place, not_found)
      else buckets_loop results (in_place, not_in_place @ [t @ '' ('' @ s @ '')''], not_found))"

definition compare_buckets :: "status_db \<Rightarrow> string \<Rightarrow> string list \<times> string list \<times> string list" where
  "compare_buckets db artwork_names =
     buckets_loop (results_loop db (names_list artwork_names) []) ([], [], [])"

definition numbered_line :: "nat \<times> string \<Rightarrow> string" where
  "numbered_line it = str_nat (fst it) @ ''. '' @ snd it @ [LF]"

definition render_bucket :: "string \<Rightarrow> string list \<Rightarrow> string \<Rightarrow> string" where
  "render_bucket heading bucket trailer =
     (if bucket \<noteq> []
      then heading @ [LF] @ concat (map numbered_line (enumerate1 bucket)) @ trailer
      else [])"

definition render_buckets :: "string list \<times> string list \<times> string list \<Rightarrow> string" where
  "render_buckets b =
     (case b of (in_place, not_in_place, not_found) \<Rightarrow>
        ''Artwork Status Comparison:'' @ [LF, LF] @
        render_bucket ''Currently in place:'' in_place [LF] @
        render_bucket ''Not currently in place:'' not_in_place [LF] @
        render_bucket ''Not found in database:'' not_found [])"

definition compare_artwork_status :: "status_db \<Rightarrow> string \<Rightarrow> string" where
  "compare_artwork_status db artwork_names =
     (if artwork_names = [] then ''Error: No artwork names provided''
      else if names_list artwork_names = []
      then ''Error: Invalid input format. Please provide a comma-separated list of artwork names.''
      else render_buckets (compare_buckets db artwork_names))"

subsection \<open>\<open>list_artworks_by_neighborhood\<close>\<close>

fun neighborhood_loop ::
  "string \<Rightarrow> artwork list \<Rightarrow> artwork list \<times> string set \<Rightarrow> artwork list \<times> string set" where
  "neighborhood_loop nb [] (artworks, seen_titles) = (artworks, seen_titles)"
| "neighborhood_loop nb (data # rest) (artworks, seen_titles) =
     (if title data \<in> seen_titles then neighborhood_loop nb rest (artworks, seen_titles)
      else if in_neighborhood nb data
           then neighborhood_loop nb rest (artworks @ [data], insert (title data) seen_titles)
           else neighborhood_loop nb rest (artworks, seen_titles))"

definition artworks_in_neighborhood :: "status_db \<Rightarrow> string \<Rightarrow> artwork list" where
  "artworks_in_neighborhood db nb =
     sort_key title (fst (neighborhood_loop nb (map snd db) ([], {})))"

definition list_artworks_by_neighborhood :: "status_db \<Rightarrow> string \<Rightarrow> int \<Rightarrow> string" where
  "list_artworks_by_neighborhood db nb limit =
     (let artworks = artworks_in_neighborhood db nb
      in if artworks = []
         then ''No artworks found in the '' @ nb @ '' neighborhood.''
         else (let limited_results = slice_to artworks limit
               in ''Found '' @ str_nat (length artworks) @ '' artworks in '' @ nb @
                  '' (showing '' @ str_nat (length limited_results) @ ''):'' @ [LF, LF] @
                  concat (map match_line_text (enumerate1 limited_results)) @
                  (if int (length artworks) > limit
                   then [LF] @ ''There are '' @ str_int (int (length artworks) - limit) @
                        '' more artworks in this neighborhood.''
                   else [])))"

section \<open>Reference formulations\<close>

text \<open>
  The functions of this section are not in the source. They say in closed form what the
  loops above compute, or what a sentence of the specification asks for, and the theorems
  below compare the two.
\<close>

text \<open>The keys that one round of the loader's loop writes.\<close>

fun file_keys :: "string \<times> string option \<Rightarrow> string list" where
  "file_keys (fname, None) = []"
| "file_keys (fname, Some content) =
     [lower (name (parse_artwork fname content)), lower (title (parse_artwork fname content))]"

text \<open>The first record of every title, the titles in \<open>seen\<close> left out.\<close>

fun first_by_title :: "string set \<Rightarrow> artwork list \<Rightarrow> artwork list" where
  "first_by_title seen [] = []"
| "first_by_title seen (x # xs) =
     (if title x \<in> seen then first_by_title seen xs
      else x # first_by_title (insert (title x) seen) xs)"

text \<open>
  The specification's order for \<open>list_active\<close>, "deduplicate by title before filtering",
  and the other order.
\<close>

definition dedup_then_filter :: "string \<Rightarrow> artwork list \<Rightarrow> artwork list" where
  "dedup_then_filter nb xs = filter (is_active nb) (first_by_title {} xs)"

definition filter_then_dedup :: "string \<Rightarrow> artwork list \<Rightarrow> artwork list" where
  "filter_then_dedup nb xs = first_by_title {} (filter (is_active nb) xs)"


text \<open>The bucket of \<open>compare\<close> that an entry of \<open>results\<close> goes to, and its text there.\<close>

datatype bucket = In_place | Not_in_place | Not_found

definition bucket_of :: "compare_result \<Rightarrow> bucket" where
  "bucket_of r =
     (case r of
        Missing n \<Rightarrow> Not_found
      | Found n t s \<Rightarrow> if s = ''In place'' then In_place else Not_in_place)"

definition entry_text :: "compare_result \<Rightarrow> string" where
  "entry_text r =
     (case r of
        Missing n \<Rightarrow> n
      | Found n t s \<Rightarrow> if s = ''In place'' then t else t @ '' ('' @ s @ '')'')"

text \<open>
  The tokens of the input that go to bucket \<open>b\<close>, in the order and as often as they stand
  in the input, each as its entry.
\<close>

definition bucket_entries :: "status_db \<Rightarrow> bucket \<Rightarrow> string list \<Rightarrow> string list" where
  "bucket_entries db b names =
     map (\<lambda>n. entry_text (lookup_result db n))
       (filter (\<lambda>n. bucket_of (lookup_result db n) = b) names)"

text \<open>
  The entries that \<open>list_active\<close> lists, written line by line as the specification words
  them: the number, the title, and the location and the neighborhood where they are not
  empty. The first entry has the number \<open>i\<close>.
\<close>

fun active_entries_from :: "nat \<Rightarrow> artwork list \<Rightarrow> string" where
  "active_entries_from i [] = []"
| "active_entries_from i (art # arts) =
     (str_nat i @ ''. '' @ title art @
      (if location art = [] then [] else '' - Located at: '' @ location art) @
      (if neighborhood art = [] then [] else '' ('' @ neighborhood art @ '')'') @
      ''\<newline>'') @
     active_entries_from (Suc i) arts"

text \<open>The numbered list of a bucket of \<open>compare\<close>, line by line.\<close>

fun numbered_from :: "nat \<Rightarrow> string list \<Rightarrow> string" where
  "numbered_from i [] = []"
| "numbered_from i (x # xs) = (str_nat i @ ''. '' @ x @ ''\<newline>'') @ numbered_from (Suc i) xs"

section \<open>Directories used as examples\<close>

text \<open>Two records, the first with a title that is not its file name.\<close>

definition downtown_files :: "(string \<times> string option) list" where
  "downtown_files =
     [(''digital_orca.md'',
       Some ''# Digital Orca\<newline>\<newline>## Title of Work\<newline>Digital Orca\<newline>\<newline>## Status\<newline>In place\<newline>\<newline>## Neighbourhood\<newline>Downtown\<newline>''),
      (''The Drop.md'',
       Some ''## Status\<newline>Removed\<newline>## Neighbourhood\<newline>Downtown\<newline>'')]"

text \<open>The title of the second file is the name of the first.\<close>

definition title_clash :: "(string \<times> string option) list" where
  "title_clash =
     [(''a.md'', Some []),
      (''b.md'', Some ''## Title of Work\<newline>a\<newline>'')]"

text \<open>Two files with one title, the first removed and the second in place.\<close>

definition two_titles :: "(string \<times> string option) list" where
  "two_titles =
     [(''a.md'', Some ''## Title of Work\<newline>T\<newline>## Status\<newline>Removed\<newline>''),
      (''b.md'', Some ''## Title of Work\<newline>T\<newline>## Status\<newline>In place\<newline>'')]"


definition two_active :: "(string \<times> string option) list" where
  "two_active =
     [(''a.md'', Some ''## Status\<newline>In place\<newline>''),
      (''b.md'', Some ''## Status\<newline>In place\<newline>'')]"

text \<open>Four records with titles: two in place, one removed, one in storage.\<close>

definition four_files :: "(string \<times> string option) list" where
  "four_files =
     [(''girl.md'',
       Some ''## Title of Work\<newline>Girl in Wetsuit\<newline>## Status\<newline>In place\<newline>## Neighbourhood\<newline>Stanley Park\<newline>''),
      (''orca.md'',
       Some ''## Title of Work\<newline>Digital Orca\<newline>## Status\<newline>In place\<newline>## LocationOnsite\<newline>Jack Poole Plaza\<newline>## Neighbourhood\<newline>Downtown\<newline>''),
      (''drop.md'',
       Some ''## Title of Work\<newline>The Drop\<newline>## Status\<newline>Removed\<newline>''),
      (''gate.md'',
       Some ''## Title of Work\<newline>Lions Gate\<newline>## Status\<newline>In storage\<newline>'')]"

text \<open>A description of 301 characters.\<close>

definition long_file :: "string \<times> string option" where
  "long_file =
     (''long.md'', Some (''## DescriptionOfwork\<newline>'' @ replicate 301 (CHR ''x'')))"

section \<open>Facts about the helpers\<close>

lemma map_of_dict_set: "map_of (dict_set d k v) = (map_of d)(k \<mapsto> v)"
  by (induction d k v rule: dict_set.induct) (auto simp: fun_eq_iff)

lemma set_dict_set:
  "(k', r) \<in> set (dict_set d k v) \<Longrightarrow> (k', r) \<in> set d \<or> (k' = k \<and> r = v)"
  by (induction d k v rule: dict_set.induct) (auto split: if_splits)

lemma lower_eq_Nil: "lower q = [] \<longleftrightarrow> q = []"
  by (simp add: lower_def)

lemma lower_char_idem: "lower_char (lower_char c) = lower_char c"
  by (auto simp: lower_char_def Let_def)

lemma lower_idem: "lower (lower s) = lower s"
  by (simp add: lower_def lower_char_idem)

lemma slice_to_length: "0 \<le> limit \<Longrightarrow> length (slice_to xs limit) \<le> nat limit"
  by (simp add: slice_to_def)



text \<open>The lines that the loops over \<open>enumerate(..., 1)\<close> print, one after the other.\<close>

lemma zip_upt_Cons:
  "zip [i ..< Suc (i + length xs)] (x # xs) = (i, x) # zip [Suc i ..< Suc (i + length xs)] xs"
  by (subst upt_conv_Cons) simp_all

lemma active_lines_from:
  "concat (map active_line (zip [i ..< i + length arts] arts)) = active_entries_from i arts"
proof (induction arts arbitrary: i)
  case Nil
  show ?case by simp
next
  case (Cons art arts)
  have "zip [i ..< i + length (art # arts)] (art # arts) =
          (i, art) # zip [Suc i ..< Suc i + length arts] arts"
    using zip_upt_Cons[of i arts art] by (simp del: upt_Suc)
  then have "concat (map active_line (zip [i ..< i + length (art # arts)] (art # arts))) =
          active_line (i, art) @ concat (map active_line (zip [Suc i ..< Suc i + length arts] arts))"
    by (simp only: list.map concat.simps)
  also have "\<dots> = active_line (i, art) @ active_entries_from (Suc i) arts"
    by (simp only: Cons.IH)
  also have "\<dots> = active_entries_from i (art # arts)"
    by (simp add: active_line_def)
  finally show ?case .
qed

lemma active_lines: "concat (map active_line (enumerate1 arts)) = active_entries_from 1 arts"
proof -
  have "enumerate1 arts = zip [1 ..< 1 + length arts] arts"
    by (simp only: enumerate1_def plus_1_eq_Suc)
  then show ?thesis
    by (simp only: active_lines_from)
qed

lemma numbered_lines_from:
  "concat (map numbered_line (zip [i ..< i + length xs] xs)) = numbered_from i xs"
proof (induction xs arbitrary: i)
  case Nil
  show ?case by simp
next
  case (Cons x xs)
  have "zip [i ..< i + length (x # xs)] (x # xs) =
          (i, x) # zip [Suc i ..< Suc i + length xs] xs"
    using zip_upt_Cons[of i xs x] by (simp del: upt_Suc)
  then have "concat (map numbered_line (zip [i ..< i + length (x # xs)] (x # xs))) =
          numbered_line (i, x) @ concat (map numbered_line (zip [Suc i ..< Suc i + length xs] xs))"
    by (simp only: list.map concat.simps)
  also have "\<dots> = numbered_line (i, x) @ numbered_from (Suc i) xs"
    by (simp only: Cons.IH)
  also have "\<dots> = numbered_from i (x # xs)"
    by (simp add: numbered_line_def)
  finally show ?case .
qed

lemma numbered_lines: "concat (map numbered_line (enumerate1 xs)) = numbered_from 1 xs"
proof -
  have "enumerate1 xs = zip [1 ..< 1 + length xs] xs"
    by (simp only: enumerate1_def plus_1_eq_Suc)
  then show ?thesis
    by (simp only: numbered_lines_from)
qed

section \<open>The loader\<close>

lemma map_of_load_file_other:
  "k \<notin> set (file_keys f) \<Longrightarrow> map_of (load_file db f) k = map_of db k"
  by (cases f rule: file_keys.cases) (auto simp: Let_def map_of_dict_set)

lemma map_of_load_file_own:
  "k \<in> set (file_keys (fname, Some content)) \<Longrightarrow>
   map_of (load_file db (fname, Some content)) k = Some (parse_artwork fname content)"
  by (auto simp: Let_def map_of_dict_set)

lemma map_of_foldl_other:
  "\<forall>f \<in> set fs. k \<notin> set (file_keys f) \<Longrightarrow>
   map_of (foldl load_file db fs) k = map_of db k"
  by (induction fs arbitrary: db) (simp_all add: map_of_load_file_other)

lemma set_load_file:
  "(k, r) \<in> set (load_file db f) \<Longrightarrow>
   (k, r) \<in> set db \<or>
   (\<exists>fname content. f = (fname, Some content) \<and> r = parse_artwork fname content \<and>
      k \<in> set (file_keys f))"
  by (cases f rule: file_keys.cases) (auto simp: Let_def dest!: set_dict_set split: if_splits)

lemma set_foldl_load_file:
  "(k, r) \<in> set (foldl load_file db fs) \<Longrightarrow>
   (k, r) \<in> set db \<or>
   (\<exists>fname content. (fname, Some content) \<in> set fs \<and> r = parse_artwork fname content \<and>
      k \<in> set (file_keys (fname, Some content)))"
proof (induction fs arbitrary: db)
  case Nil
  then show ?case by simp
next
  case (Cons f fs)
  from Cons.IH[of "load_file db f"] Cons.prems
  have "(k, r) \<in> set (load_file db f) \<or>
        (\<exists>fname content. (fname, Some content) \<in> set fs \<and> r = parse_artwork fname content \<and>
           k \<in> set (file_keys (fname, Some content)))"
    by simp
  then show ?case
  proof
    assume "(k, r) \<in> set (load_file db f)"
    from set_load_file[OF this] consider
      (old) "(k, r) \<in> set db"
    | (new) fname content where "f = (fname, Some content)" "r = parse_artwork fname content"
        "k \<in> set (file_keys f)"
      by blast
    then show ?thesis
    proof cases
      case old
      then show ?thesis by simp
    next
      case new
      then have "(fname, Some content) \<in> set (f # fs)"
        and "k \<in> set (file_keys (fname, Some content))"
        by simp_all
      with new(2) show ?thesis by blast
    qed
  next
    assume "\<exists>fname content. (fname, Some content) \<in> set fs \<and> r = parse_artwork fname content \<and>
           k \<in> set (file_keys (fname, Some content))"
    then obtain fname content where
      "(fname, Some content) \<in> set (f # fs)" "r = parse_artwork fname content"
      "k \<in> set (file_keys (fname, Some content))"
      by auto
    then show ?thesis by blast
  qed
qed

text \<open>Every key of the loaded index is in lower case.\<close>

lemma loaded_keys_lower:
  assumes "(k, r) \<in> set (load_status_database md_files)"
  shows "lower k = k"
proof -
  from set_foldl_load_file[OF assms[unfolded load_status_database_def]]
  obtain fname content where "k \<in> set (file_keys (fname, Some content))"
    by auto
  then show ?thesis
    by (auto simp: lower_idem)
qed

text \<open>
  C1, as the claim states it, fails. In \<^const>\<open>title_clash\<close> the second file has the
  first file's name as its title, and after the load the key \<open>a\<close> holds the second
  file's record: the first record cannot be reached under its lower-cased name.
\<close>

theorem reachable_by_name_counterexample:
  "map_of (load_status_database title_clash) (lower (name (parse_artwork ''a.md'' [])))
     \<noteq> Some (parse_artwork ''a.md'' [])"
  by code_simp

text \<open>
  C1 (amended): after the loader has processed every file, the record of a file that was
  read is reachable in the index under its lower-cased name and under its lower-cased
  title, each provided that no file processed after it has that key as its own lower-cased
  name or title; a later file with the key overwrites the entry.
\<close>

theorem loaded_record_reachable:
  assumes "md_files = before @ (fname, Some content) # after"
    and "k = lower (name (parse_artwork fname content)) \<or>
         k = lower (title (parse_artwork fname content))"
    and "\<forall>f \<in> set after. k \<notin> set (file_keys f)"
  shows "map_of (load_status_database md_files) k = Some (parse_artwork fname content)"
proof -
  have "map_of (load_status_database md_files) k =
        map_of (foldl load_file
                  (load_file (foldl load_file [] before) (fname, Some content)) after) k"
    by (simp add: load_status_database_def assms(1))
  also have "\<dots> = map_of (load_file (foldl load_file [] before) (fname, Some content)) k"
    using assms(3) by (rule map_of_foldl_other)
  also have "\<dots> = Some (parse_artwork fname content)"
    using assms(2) by (intro map_of_load_file_own) auto
  finally show ?thesis .
qed

theorem loaded_record_reachable_witness:
  "map_of (load_status_database downtown_files) ''digital orca'' =
     Some (parse_artwork (fst (hd downtown_files)) (the (snd (hd downtown_files))))"
proof -
  have files: "downtown_files =
      [] @ (fst (hd downtown_files), Some (the (snd (hd downtown_files)))) # tl downtown_files"
    by code_simp
  have key: "''digital orca'' =
        lower (name (parse_artwork (fst (hd downtown_files)) (the (snd (hd downtown_files))))) \<or>
      ''digital orca'' =
        lower (title (parse_artwork (fst (hd downtown_files)) (the (snd (hd downtown_files)))))"
    by code_simp
  have later: "\<forall>f \<in> set (tl downtown_files). ''digital orca'' \<notin> set (file_keys f)"
    by code_simp
  from loaded_record_reachable[OF files key later] show ?thesis .
qed

text \<open>
  C8: every record of the loaded index comes from a file that was read, and its description
  is the parsed description when that has at most 300 characters, and its first 300
  characters followed by \<open>...\<close> when it has more.
\<close>

theorem stored_description:
  assumes "(k, r) \<in> set (load_status_database md_files)"
  shows "\<exists>fname content.
           (fname, Some content) \<in> set md_files \<and> r = parse_artwork fname content \<and>
           description r =
             (if length (raw_description content) \<le> 300 then raw_description content
              else take 300 (raw_description content) @ ''...'')"
proof -
  from set_foldl_load_file[OF assms[unfolded load_status_database_def]]
  obtain fname content
    where f: "(fname, Some content) \<in> set md_files" "r = parse_artwork fname content"
    by auto
  have "description (parse_artwork fname content) =
          (if length (raw_description content) \<le> 300 then raw_description content
           else take 300 (raw_description content) @ ''...'')"
    by (simp add: parse_artwork_def truncate_description_def Let_def)
  with f show ?thesis by blast
qed

theorem stored_description_witness:
  "\<exists>fname content.
     (fname, Some content) \<in> set [long_file] \<and>
     parse_artwork ''long.md'' (the (snd long_file)) = parse_artwork fname content \<and>
     description (parse_artwork ''long.md'' (the (snd long_file))) =
       (if length (raw_description content) \<le> 300 then raw_description content
        else take 300 (raw_description content) @ ''...'')"
proof -
  have loaded: "(''long'', parse_artwork ''long.md'' (the (snd long_file)))
                  \<in> set (load_status_database [long_file])"
    by code_simp
  from stored_description[OF loaded] show ?thesis .
qed

text \<open>The stored description of \<^const>\<open>long_file\<close> is cut: 300 characters and the dots.\<close>

lemma long_file_description:
  "description (parse_artwork ''long.md'' (the (snd long_file))) =
     replicate 300 (CHR ''x'') @ ''...''"
  by code_simp

section \<open>\<open>get_artwork_status\<close>\<close>

lemma fuzzy_loop_eq:
  "fuzzy_loop q items matches = matches @ map snd (filter (fuzzy_hit (lower q)) items)"
  by (induction items arbitrary: matches) auto

lemma fuzzy_matches_eq: "fuzzy_matches db q = map snd (filter (fuzzy_hit (lower q)) db)"
  by (simp add: fuzzy_matches_def fuzzy_loop_eq)



text \<open>
  C4, as the claim states it, fails. The index of \<^const>\<open>downtown_files\<close> has no key
  \<open>orca\<close>; the fuzzy answer repeats the query as it was typed, so \<open>orca\<close> and \<open>ORCA\<close>,
  which are equal in lower case, get different outputs.
\<close>

theorem status_case_variant_counterexample:
  "lower ''orca'' = lower ''ORCA'' \<and>
   get_artwork_status (load_status_database downtown_files) ''orca'' False \<noteq>
   get_artwork_status (load_status_database downtown_files) ''ORCA'' False"
  by code_simp

text \<open>
  C4 (amended): for every index, every flag \<open>include_details\<close> and every two query names
  that are equal in lower case, \<open>status\<close> gives the same output for both when the
  lower-cased name is a key of the index, and in every case both queries select the same
  fuzzy matches in the same order. Without an exact match the output repeats the query as
  it was typed.
\<close>

theorem status_case_insensitive:
  assumes "lower q1 = lower q2"
  shows "(dict_in (lower q1) db \<longrightarrow>
            get_artwork_status db q1 d = get_artwork_status db q2 d) \<and>
         fuzzy_matches db q1 = fuzzy_matches db q2"
proof -
  from assms have "q1 = [] \<longleftrightarrow> q2 = []"
    by (metis lower_eq_Nil)
  with assms show ?thesis
    by (auto simp: dict_in_def get_artwork_status_def fuzzy_matches_eq)
qed

theorem status_case_insensitive_witness:
  "get_artwork_status (load_status_database downtown_files) ''digital orca'' True =
   get_artwork_status (load_status_database downtown_files) ''DIGITAL ORCA'' True"
proof -
  have same: "lower ''digital orca'' = lower ''DIGITAL ORCA''"
    by code_simp
  have key: "dict_in (lower ''digital orca'') (load_status_database downtown_files)"
    by code_simp
  from status_case_insensitive[OF same, of "load_status_database downtown_files" True] key
  show ?thesis by blast
qed




section \<open>\<open>list_active_artworks\<close>\<close>

lemma active_loop_fst:
  "fst (active_loop nb xs (acc, seen)) = acc @ first_by_title seen (filter (is_active nb) xs)"
  by (induction xs arbitrary: acc seen) (auto simp: is_active_def)

text \<open>
  C3, as the claim states it, fails. The index of \<^const>\<open>two_titles\<close> holds two records
  with the title \<open>T\<close>; the first in the order of the index is removed, the second is in
  place. Deduplicating before the filter keeps the first and lists nothing; the loop of
  \<open>list_active_artworks\<close> lists the second.
\<close>

theorem dedup_before_filter_counterexample:
  "fst (active_loop [] (map snd (load_status_database two_titles)) ([], {})) \<noteq>
     dedup_then_filter [] (map snd (load_status_database two_titles)) \<and>
   dedup_then_filter [] (map snd (load_status_database two_titles)) = [] \<and>
   fst (active_loop [] (map snd (load_status_database two_titles)) ([], {})) =
     [parse_artwork (fst (two_titles ! 1)) (the (snd (two_titles ! 1)))] \<and>
   list_active_artworks (load_status_database two_titles) [] 5 =
     ''Found 1 active artworks (showing 1):\<newline>\<newline>1. T\<newline>''"
  by code_simp

text \<open>
  C3 (amended): \<open>list_active\<close> deduplicates by title among the records that pass the
  status and neighborhood filter: of the index entries with one title, the first in the
  order of the index that passes the filter is listed, and an earlier entry with that
  title that fails the filter does not keep it out. The list is then sorted by title.
\<close>

theorem list_active_first_passing:
  "fst (active_loop nb (map snd db) ([], {})) = filter_then_dedup nb (map snd db) \<and>
   active_artworks db nb = sort_key title (filter_then_dedup nb (map snd db))"
  by (simp add: active_loop_fst filter_then_dedup_def active_artworks_def)

theorem list_active_first_passing_witness:
  "active_artworks (load_status_database two_titles) [] =
     [parse_artwork (fst (two_titles ! 1)) (the (snd (two_titles ! 1)))]"
proof -
  have "sort_key title (filter_then_dedup [] (map snd (load_status_database two_titles))) =
          [parse_artwork (fst (two_titles ! 1)) (the (snd (two_titles ! 1)))]"
    by code_simp
  with list_active_first_passing[of "[]" "load_status_database two_titles"]
  show ?thesis by simp
qed

text \<open>
  C6, as the claim states it, fails. With two active artworks and the limit \<open>-1\<close> the
  output of \<open>list_active\<close> lists one entry, the slice \<open>active_artworks[:-1]\<close>, which is
  more than the limit.
\<close>

theorem list_active_limit_counterexample:
  "list_active_artworks (load_status_database two_active) [] (- 1) =
     ''Found 2 active artworks (showing 1):\<newline>\<newline>1. a\<newline>\<newline>There are 3 more active artworks.'' \<and>
   list_active_artworks (load_status_database two_active) [] (- 1) =
     ''Found 2 active artworks (showing 1):\<newline>\<newline>'' @
     active_entries_from 1 [parse_artwork ''a.md'' ''## Status\<newline>In place\<newline>''] @
     ''\<newline>There are 3 more active artworks.'' \<and>
   \<not> int (length [parse_artwork ''a.md'' ''## Status\<newline>In place\<newline>'']) \<le> - 1"
  by code_simp

text \<open>
  C6 (amended): for every index, neighborhood filter and limit that is not negative, the
  output of \<open>list_active\<close> lists exactly the entries of the first \<open>limit\<close> matching
  records in the order of their titles, which are at most \<open>limit\<close> entries, and whenever
  the number of matching records exceeds the limit the output ends with the message that
  reports the number of matching records minus the limit.
\<close>

theorem list_active_limit:
  assumes "0 \<le> limit"
  shows "list_active_artworks db nb limit =
           (if active_artworks db nb = []
            then (if nb \<noteq> [] then ''No active artworks found in the '' @ nb @ '' neighborhood''
                  else ''No active artworks found'')
            else ''Found '' @ str_nat (length (active_artworks db nb)) @ '' active artworks'' @
                 (if nb \<noteq> [] then '' in or near '' @ nb else []) @
                 '' (showing '' @
                 str_nat (length (take (nat limit) (active_artworks db nb))) @
                 ''):\<newline>\<newline>'' @
                 active_entries_from 1 (take (nat limit) (active_artworks db nb)) @
                 (if int (length (active_artworks db nb)) > limit
                  then ''\<newline>There are '' @
                       str_int (int (length (active_artworks db nb)) - limit) @
                       '' more active artworks.''
                  else [])) \<and>
         length (take (nat limit) (active_artworks db nb)) \<le> nat limit \<and>
         (int (length (active_artworks db nb)) > limit \<longrightarrow>
            suffix (''\<newline>There are '' @
                    str_int (int (length (active_artworks db nb)) - limit) @
                    '' more active artworks.'')
              (list_active_artworks db nb limit))"
proof (intro conjI impI)
  from assms have slice: "slice_to (active_artworks db nb) limit =
      take (nat limit) (active_artworks db nb)"
    by (simp add: slice_to_def)
  show out: "list_active_artworks db nb limit =
           (if active_artworks db nb = []
            then (if nb \<noteq> [] then ''No active artworks found in the '' @ nb @ '' neighborhood''
                  else ''No active artworks found'')
            else ''Found '' @ str_nat (length (active_artworks db nb)) @ '' active artworks'' @
                 (if nb \<noteq> [] then '' in or near '' @ nb else []) @
                 '' (showing '' @
                 str_nat (length (take (nat limit) (active_artworks db nb))) @
                 ''):\<newline>\<newline>'' @
                 active_entries_from 1 (take (nat limit) (active_artworks db nb)) @
                 (if int (length (active_artworks db nb)) > limit
                  then ''\<newline>There are '' @
                       str_int (int (length (active_artworks db nb)) - limit) @
                       '' more active artworks.''
                  else []))"
    unfolding list_active_artworks_def Let_def slice active_lines active_more_def
    by simp
  show "length (take (nat limit) (active_artworks db nb)) \<le> nat limit"
    by simp
  assume more: "int (length (active_artworks db nb)) > limit"
  with assms have ne: "active_artworks db nb \<noteq> []"
    by auto
  show "suffix (''\<newline>There are '' @
                str_int (int (length (active_artworks db nb)) - limit) @
                '' more active artworks.'')
          (list_active_artworks db nb limit)"
    unfolding out using more ne by (simp add: suffix_def)
qed

theorem list_active_limit_witness:
  "list_active_artworks (load_status_database four_files) [] 1 =
     ''Found 2 active artworks (showing 1):\<newline>\<newline>1. Digital Orca - Located at: Jack Poole Plaza (Downtown)\<newline>\<newline>There are 1 more active artworks.''"
proof -
  have limit: "(0::int) \<le> 1"
    by simp
  have shown: "take (nat 1) (active_artworks (load_status_database four_files) []) =
      [parse_artwork (fst (four_files ! 1)) (the (snd (four_files ! 1)))]"
    by code_simp
  have total: "length (active_artworks (load_status_database four_files) []) = 2"
    by code_simp
  have out: "''Found '' @ str_nat 2 @ '' active artworks'' @
      '' (showing '' @ str_nat (length [parse_artwork (fst (four_files ! 1)) (the (snd (four_files ! 1)))]) @
      ''):\<newline>\<newline>'' @
      active_entries_from 1 [parse_artwork (fst (four_files ! 1)) (the (snd (four_files ! 1)))] @
      ''\<newline>There are '' @ str_int (int 2 - 1) @ '' more active artworks.'' =
      ''Found 2 active artworks (showing 1):\<newline>\<newline>1. Digital Orca - Located at: Jack Poole Plaza (Downtown)\<newline>\<newline>There are 1 more active artworks.''"
    by code_simp
  have ne: "active_artworks (load_status_database four_files) [] \<noteq> []"
    using total by auto
  from list_active_limit[OF limit, of "load_status_database four_files" "[]"]
  have "list_active_artworks (load_status_database four_files) [] 1 =
      ''Found '' @ str_nat 2 @ '' active artworks'' @
      '' (showing '' @ str_nat (length [parse_artwork (fst (four_files ! 1)) (the (snd (four_files ! 1)))]) @
      ''):\<newline>\<newline>'' @
      active_entries_from 1 [parse_artwork (fst (four_files ! 1)) (the (snd (four_files ! 1)))] @
      ''\<newline>There are '' @ str_int (int 2 - 1) @ '' more active artworks.''"
    unfolding shown total using ne by simp
  then show ?thesis
    unfolding out .
qed

text \<open>With a limit above the number of matching records both entries are listed.\<close>

lemma list_active_two_entries:
  "list_active_artworks (load_status_database four_files) [] 5 =
     ''Found 2 active artworks (showing 2):\<newline>\<newline>1. Digital Orca - Located at: Jack Poole Plaza (Downtown)\<newline>2. Girl in Wetsuit (Stanley Park)\<newline>''"
  by code_simp

section \<open>\<open>compare_artwork_status\<close>\<close>

lemma results_loop_eq:
  "results_loop db names results = results @ map (lookup_result db) names"
  by (induction names arbitrary: results) auto

lemma buckets_loop_eq:
  "buckets_loop rs (a, b, c) =
     (a @ map entry_text (filter (\<lambda>r. bucket_of r = In_place) rs),
      b @ map entry_text (filter (\<lambda>r. bucket_of r = Not_in_place) rs),
      c @ map entry_text (filter (\<lambda>r. bucket_of r = Not_found) rs))"
  by (induction rs "(a, b, c)" arbitrary: a b c rule: buckets_loop.induct)
     (simp_all add: entry_text_def bucket_of_def)

lemma buckets_loop_length:
  "buckets_loop rs (a, b, c) = (a', b', c') \<Longrightarrow>
   length a' + length b' + length c' = length a + length b + length c + length rs"
  by (induction rs "(a, b, c)" arbitrary: a b c rule: buckets_loop.induct)
     (auto split: if_splits)

lemma lookup_result_empty: "lookup_result [] n = Missing n"
  by (simp add: lookup_result_def)

lemma buckets_loop_missing: "buckets_loop (map Missing ns) (a, b, c) = (a, b, c @ ns)"
  by (induction ns arbitrary: c) auto

lemma compare_buckets_empty_index: "compare_buckets [] s = ([], [], names_list s)"
proof -
  have m: "map (lookup_result []) ns = map Missing ns" for ns
    by (induction ns) (simp_all add: lookup_result_empty)
  show ?thesis
    unfolding compare_buckets_def results_loop_eq append_Nil m
    by (simp add: buckets_loop_missing)
qed

text \<open>
  C2, as the claim states it, fails. The input \<open>Ghost,Ghost\<close> has one distinct token, and
  \<open>compare\<close> puts two entries into the bucket of the names that are not found.
\<close>

theorem compare_partition_counterexample:
  "(case compare_buckets (load_status_database downtown_files) ''Ghost,Ghost'' of
      (in_place, not_in_place, not_found) \<Rightarrow>
        length in_place + length not_in_place + length not_found)
     \<noteq> length (remdups (names_list ''Ghost,Ghost'')) \<and>
   compare_buckets (load_status_database downtown_files) ''Ghost,Ghost'' =
     ([], [], [''Ghost'', ''Ghost'']) \<and>
   length (remdups (names_list ''Ghost,Ghost'')) = 1"
  by code_simp

text \<open>
  C2 (amended): for every index and every input string, the sizes of the three buckets of
  \<open>compare\<close> add up to the number of tokens of the input that are not empty after
  trimming, a token counted as often as it occurs.
\<close>

theorem compare_partition:
  "(case compare_buckets db s of (in_place, not_in_place, not_found) \<Rightarrow>
      length in_place + length not_in_place + length not_found) = length (names_list s)"
proof -
  obtain a b c where abc: "compare_buckets db s = (a, b, c)"
    by (cases "compare_buckets db s") auto
  from buckets_loop_length[OF abc[unfolded compare_buckets_def]]
  show ?thesis
    by (simp add: abc results_loop_eq)
qed

theorem compare_partition_witness:
  "(case compare_buckets (load_status_database downtown_files)
           ''Digital Orca, The Drop ,,Ghost, Ghost'' of
      (in_place, not_in_place, not_found) \<Rightarrow>
        length in_place + length not_in_place + length not_found) = 4"
proof -
  have "length (names_list ''Digital Orca, The Drop ,,Ghost, Ghost'') = 4"
    by code_simp
  with compare_partition[of "load_status_database downtown_files"
      "''Digital Orca, The Drop ,,Ghost, Ghost''"]
  show ?thesis by simp
qed

text \<open>
  C10: for every index and input, each of the three buckets of \<open>compare\<close> holds the
  entries of the input's tokens that go to it, in the order of the tokens in the input and
  one entry for every occurrence of a token; the output prints each bucket that is not
  empty under its heading, entry by entry in that order, numbered from 1.
\<close>

theorem compare_keeps_order:
  "compare_buckets db s =
     (bucket_entries db In_place (names_list s),
      bucket_entries db Not_in_place (names_list s),
      bucket_entries db Not_found (names_list s)) \<and>
   compare_artwork_status db s =
     (if s = [] then ''Error: No artwork names provided''
      else if names_list s = []
      then ''Error: Invalid input format. Please provide a comma-separated list of artwork names.''
      else ''Artwork Status Comparison:\<newline>\<newline>'' @
           (if bucket_entries db In_place (names_list s) = [] then []
            else ''Currently in place:\<newline>'' @
                 numbered_from 1 (bucket_entries db In_place (names_list s)) @ ''\<newline>'') @
           (if bucket_entries db Not_in_place (names_list s) = [] then []
            else ''Not currently in place:\<newline>'' @
                 numbered_from 1 (bucket_entries db Not_in_place (names_list s)) @ ''\<newline>'') @
           (if bucket_entries db Not_found (names_list s) = [] then []
            else ''Not found in database:\<newline>'' @
                 numbered_from 1 (bucket_entries db Not_found (names_list s))))"
proof -
  have b: "compare_buckets db s =
     (bucket_entries db In_place (names_list s),
      bucket_entries db Not_in_place (names_list s),
      bucket_entries db Not_found (names_list s))"
    by (simp add: compare_buckets_def results_loop_eq buckets_loop_eq bucket_entries_def
          filter_map comp_def)
  show ?thesis
    by (simp add: b compare_artwork_status_def render_buckets_def render_bucket_def
          numbered_lines)
qed

theorem compare_keeps_order_witness:
  "compare_artwork_status (load_status_database four_files)
     ''Ghost,girl in wetsuit, The Drop ,DIGITAL ORCA,lions gate,Ghost,Phantom'' =
     ''Artwork Status Comparison:\<newline>\<newline>Currently in place:\<newline>1. Girl in Wetsuit\<newline>2. Digital Orca\<newline>\<newline>Not currently in place:\<newline>1. The Drop (Removed)\<newline>2. Lions Gate (In storage)\<newline>\<newline>Not found in database:\<newline>1. Ghost\<newline>2. Ghost\<newline>3. Phantom\<newline>''"
proof -
  let ?db = "load_status_database four_files"
  let ?s = "''Ghost,girl in wetsuit, The Drop ,DIGITAL ORCA,lions gate,Ghost,Phantom''"
  have names: "?s \<noteq> [] \<and> names_list ?s \<noteq> []"
    by code_simp
  have first: "bucket_entries ?db In_place (names_list ?s) = [''Girl in Wetsuit'', ''Digital Orca'']"
    by code_simp
  have second: "bucket_entries ?db Not_in_place (names_list ?s) =
      [''The Drop (Removed)'', ''Lions Gate (In storage)'']"
    by code_simp
  have third: "bucket_entries ?db Not_found (names_list ?s) = [''Ghost'', ''Ghost'', ''Phantom'']"
    by code_simp
  have lines: "''Artwork Status Comparison:\<newline>\<newline>'' @
      (''Currently in place:\<newline>'' @
         numbered_from 1 [''Girl in Wetsuit'', ''Digital Orca''] @ ''\<newline>'') @
      (''Not currently in place:\<newline>'' @
         numbered_from 1 [''The Drop (Removed)'', ''Lions Gate (In storage)''] @ ''\<newline>'') @
      (''Not found in database:\<newline>'' @ numbered_from 1 [''Ghost'', ''Ghost'', ''Phantom'']) =
      ''Artwork Status Comparison:\<newline>\<newline>Currently in place:\<newline>1. Girl in Wetsuit\<newline>2. Digital Orca\<newline>\<newline>Not currently in place:\<newline>1. The Drop (Removed)\<newline>2. Lions Gate (In storage)\<newline>\<newline>Not found in database:\<newline>1. Ghost\<newline>2. Ghost\<newline>3. Phantom\<newline>''"
    by code_simp
  from compare_keeps_order[of ?db ?s] names
  have "compare_artwork_status ?db ?s =
      ''Artwork Status Comparison:\<newline>\<newline>'' @
      (''Currently in place:\<newline>'' @
         numbered_from 1 [''Girl in Wetsuit'', ''Digital Orca''] @ ''\<newline>'') @
      (''Not currently in place:\<newline>'' @
         numbered_from 1 [''The Drop (Removed)'', ''Lions Gate (In storage)''] @ ''\<newline>'') @
      (''Not found in database:\<newline>'' @ numbered_from 1 [''Ghost'', ''Ghost'', ''Phantom''])"
    unfolding first second third by simp
  then show ?thesis
    unfolding lines .
qed

section \<open>Input errors and totality\<close>

text \<open>
  The operations of the query engine are total functions to strings: none of them has a
  branch that raises. Every lookup in the index is behind the test \<open>in\<close>, every record
  has all its fields, and a slice never fails.
\<close>

text \<open>
  C7: for every index, \<open>compare\<close> and \<open>status\<close> answer the empty string each with an
  error message that is not empty, the two messages differ, and \<open>compare\<close> answers an
  input that is not empty but has no token left after splitting and trimming with a
  format error that differs from its answer to the empty input.
\<close>

theorem empty_input_errors:
  "get_artwork_status db [] d = ''Error: No artwork name provided'' \<and>
   compare_artwork_status db [] = ''Error: No artwork names provided'' \<and>
   get_artwork_status db [] d \<noteq> [] \<and>
   compare_artwork_status db [] \<noteq> [] \<and>
   get_artwork_status db [] d \<noteq> compare_artwork_status db [] \<and>
   (s \<noteq> [] \<and> names_list s = [] \<longrightarrow>
      compare_artwork_status db s =
        ''Error: Invalid input format. Please provide a comma-separated list of artwork names.'' \<and>
      compare_artwork_status db s \<noteq> compare_artwork_status db [])"
  by (simp add: get_artwork_status_def compare_artwork_status_def)

theorem empty_input_errors_witness:
  "compare_artwork_status (load_status_database downtown_files) '' , '' =
     ''Error: Invalid input format. Please provide a comma-separated list of artwork names.'' \<and>
   compare_artwork_status (load_status_database downtown_files) '' , '' \<noteq>
     compare_artwork_status (load_status_database downtown_files) []"
proof -
  have blank: "'' , '' \<noteq> [] \<and> names_list '' , '' = []"
    by code_simp
  with empty_input_errors[of "load_status_database downtown_files" True "'' , ''"]
  show ?thesis by blast
qed

text \<open>
  C9: for every index and every input, \<open>status\<close>, \<open>list_active\<close>, \<open>compare\<close> and
  \<open>list_by_neighborhood\<close> return a string that is not empty; on the empty index \<open>status\<close>
  of a name answers that no artwork was found, the two listings answer that no artworks
  were found, and \<open>compare\<close> of at least one name lists every name as not found.
\<close>

theorem query_total:
  "get_artwork_status db q d \<noteq> [] \<and>
   list_active_artworks db nb limit \<noteq> [] \<and>
   compare_artwork_status db s \<noteq> [] \<and>
   list_artworks_by_neighborhood db nb limit \<noteq> [] \<and>
   get_artwork_status [] q d =
     (if q = [] then ''Error: No artwork name provided''
      else ''No artwork found matching '' @ [CHR 0x27] @ q @ [CHR 0x27]) \<and>
   list_active_artworks [] nb limit =
     (if nb \<noteq> [] then ''No active artworks found in the '' @ nb @ '' neighborhood''
      else ''No active artworks found'') \<and>
   list_artworks_by_neighborhood [] nb limit =
     ''No artworks found in the '' @ nb @ '' neighborhood.'' \<and>
   compare_artwork_status [] s =
     (if s = [] then ''Error: No artwork names provided''
      else if names_list s = []
      then ''Error: Invalid input format. Please provide a comma-separated list of artwork names.''
      else ''Artwork Status Comparison:\<newline>\<newline>'' @
           render_bucket ''Not found in database:'' (names_list s) [])"
proof (intro conjI)
  show "get_artwork_status db q d \<noteq> []"
    by (simp add: get_artwork_status_def exact_response_def fuzzy_response_def Let_def
          split: option.splits)
  show "list_active_artworks db nb limit \<noteq> []"
    by (simp add: list_active_artworks_def Let_def)
  show "compare_artwork_status db s \<noteq> []"
    by (simp add: compare_artwork_status_def render_buckets_def split: prod.splits)
  show "list_artworks_by_neighborhood db nb limit \<noteq> []"
    by (simp add: list_artworks_by_neighborhood_def Let_def)
  show "get_artwork_status [] q d =
     (if q = [] then ''Error: No artwork name provided''
      else ''No artwork found matching '' @ [CHR 0x27] @ q @ [CHR 0x27])"
    by (simp add: get_artwork_status_def fuzzy_matches_def)
  show "list_active_artworks [] nb limit =
     (if nb \<noteq> [] then ''No active artworks found in the '' @ nb @ '' neighborhood''
      else ''No active artworks found'')"
    by (simp add: list_active_artworks_def active_artworks_def)
  show "list_artworks_by_neighborhood [] nb limit =
     ''No artworks found in the '' @ nb @ '' neighborhood.''"
    by (simp add: list_artworks_by_neighborhood_def artworks_in_neighborhood_def)
  show "compare_artwork_status [] s =
     (if s = [] then ''Error: No artwork names provided''
      else if names_list s = []
      then ''Error: Invalid input format. Please provide a comma-separated list of artwork names.''
      else ''Artwork Status Comparison:\<newline>\<newline>'' @
           render_bucket ''Not found in database:'' (names_list s) [])"
    by (simp add: compare_artwork_status_def compare_buckets_empty_index render_buckets_def
          render_bucket_def)
qed

theorem query_total_witness:
  "get_artwork_status [] ''Ghost'' False = ''No artwork found matching '' @ [CHR 0x27] @ ''Ghost'' @ [CHR 0x27] \<and>
   list_active_artworks [] ''Downtown'' 5 = ''No active artworks found in the Downtown neighborhood'' \<and>
   list_artworks_by_neighborhood [] ''Downtown'' 5 = ''No artworks found in the Downtown neighborhood.'' \<and>
   compare_artwork_status [] ''Ghost'' =
     ''Artwork Status Comparison:\<newline>\<newline>Not found in database:\<newline>1. Ghost\<newline>''"
proof -
  have names: "names_list ''Ghost'' = [''Ghost'']"
    by code_simp
  have bucket: "render_bucket ''Not found in database:'' [''Ghost''] [] =
      ''Not found in database:\<newline>1. Ghost\<newline>''"
    by code_simp
  from query_total[of "[]" "''Ghost''" False "''Downtown''" 5 "''Ghost''"]
  show ?thesis
    by (simp add: names bucket)
qed

end
